theory Spec2Isabelle
  imports Main "HOL-Library.Word"
begin

section \<open>The JWE Encrypter of js-jose (src/lib/jose-jwe-encrypt.js)\<close>

text \<open>
  The file defines one class, \<^verbatim>\<open>JoseJWE.Encrypter\<close>, with a constructor and the two methods
  \<^verbatim>\<open>addHeader\<close> and \<^verbatim>\<open>encrypt\<close>. The Encrypter owns no cryptography: it calls a
  Cryptographer object and the \<^verbatim>\<open>Utils\<close> encoders, neither of which is part of the file, and
  composes promises. The embedding below follows the file line by line:
  \<^item> JavaScript objects with string properties are ordered property lists, stored in a heap
    and referred to by address, so that \<^verbatim>\<open>userHeaders\<close> and the snapshot \<^verbatim>\<open>headers\<close> are two
    objects whose separation is proved, not assumed;
  \<^item> the Cryptographer and \<^verbatim>\<open>Utils\<close> are records of functions (parameters of the model);
  \<^item> every call on the Cryptographer is written to a trace, in the order the code makes it;
  \<^item> a promise is the state its callbacks find it in; a promise derived with \<^verbatim>\<open>then\<close> is a
    function of the world in which its callbacks later run.

  Strings are lists of 8-bit characters (code units below 256). The collaborators are taken to
  answer as their interface says: the getters and \<^verbatim>\<open>createIV\<close> return a value, the other
  operations return a promise, and none throws.
\<close>

subsection \<open>Bytes and promises\<close>

type_synonym bytes = "8 word list"

text \<open>
  The state of a promise as the callbacks that wait for it find it: fulfilled with a value,
  rejected with a reason, or pending (not settled, or not settled yet).
\<close>

datatype ('err, 'a) promise = Pending | Fulfilled 'a | Rejected 'err

subsection \<open>JavaScript objects with string properties\<close>

text \<open>
  An object is the list of its own enumerable properties in the order \<^verbatim>\<open>for (i in obj)\<close> and
  \<^verbatim>\<open>JSON.stringify\<close> visit them: the keys that are array indices first, in ascending numeric
  order, then every other key in the order of creation.
\<close>

type_synonym jsobj = "(string \<times> string) list"

type_synonym addr = nat

definition is_digit :: "char \<Rightarrow> bool" where
  "is_digit c = (48 \<le> (of_char c :: nat) \<and> (of_char c :: nat) \<le> 57)"

definition decimal :: "string \<Rightarrow> nat" where
  "decimal s = foldl (\<lambda>n c. 10 * n + ((of_char c :: nat) - 48)) 0 s"

text \<open>
  An array index is a canonical numeric string (no sign, no leading zero) whose value is at
  most \<open>2^32 - 2\<close>.
\<close>

definition array_index :: "string \<Rightarrow> nat option" where
  "array_index k =
     (if k \<noteq> [] \<and> list_all is_digit k \<and> (k = ''0'' \<or> hd k \<noteq> CHR ''0'') \<and> decimal k < 4294967295
      then Some (decimal k) else None)"

definition own_keys :: "jsobj \<Rightarrow> string list" where
  "own_keys obj = map fst obj"

definition get_prop :: "jsobj \<Rightarrow> string \<Rightarrow> string option" where
  "get_prop obj k = map_of obj k"

fun update_prop :: "string \<Rightarrow> string \<Rightarrow> jsobj \<Rightarrow> jsobj" where
  "update_prop k v [] = []"
| "update_prop k v (p # ps) = (if fst p = k then (k, v) # ps else p # update_prop k v ps)"

fun insert_index :: "nat \<Rightarrow> string \<Rightarrow> string \<Rightarrow> jsobj \<Rightarrow> jsobj" where
  "insert_index n k v [] = [(k, v)]"
| "insert_index n k v (p # ps) =
     (case array_index (fst p) of
        Some m \<Rightarrow> (if m < n then p # insert_index n k v ps else (k, v) # p # ps)
      | None \<Rightarrow> (k, v) # p # ps)"

text \<open>
  \<^verbatim>\<open>obj[k] = v\<close> for a string \<open>v\<close>, on an object created by \<^verbatim>\<open>{}\<close>. An existing property keeps
  its place and takes the new value; a new property is created (an array index among the array
  indices, any other key at the end). The key \<^verbatim>\<open>__proto__\<close> is not created: the assignment
  reaches the setter inherited from \<^verbatim>\<open>Object.prototype\<close>, which ignores a string.
\<close>

definition set_prop :: "string \<Rightarrow> string \<Rightarrow> jsobj \<Rightarrow> jsobj" where
  "set_prop k v obj =
     (if k = ''__proto__'' then obj
      else if k \<in> set (own_keys obj) then update_prop k v obj
      else (case array_index k of
              Some n \<Rightarrow> insert_index n k v obj
            | None \<Rightarrow> obj @ [(k, v)]))"

text \<open>The heap: the objects allocated so far; \<^verbatim>\<open>{}\<close> allocates at the next address.\<close>

definition load :: "addr \<Rightarrow> string \<Rightarrow> jsobj list \<Rightarrow> string option" where
  "load a k h = get_prop (h ! a) k"

definition store :: "addr \<Rightarrow> string \<Rightarrow> string \<Rightarrow> jsobj list \<Rightarrow> jsobj list" where
  "store a k v h = h[a := set_prop k v (h ! a)]"

subsection \<open>JSON.stringify on an object with string properties\<close>

definition hex_digit :: "nat \<Rightarrow> char" where
  "hex_digit n = ''0123456789abcdef'' ! (n mod 16)"

definition escape_char :: "char \<Rightarrow> string" where
  "escape_char c =
     (if c = CHR 0x22 then [CHR 0x5C, CHR 0x22]
      else if c = CHR 0x5C then [CHR 0x5C, CHR 0x5C]
      else if c = CHR 0x08 then [CHR 0x5C, CHR ''b'']
      else if c = CHR 0x09 then [CHR 0x5C, CHR ''t'']
      else if c = CHR 0x0A then [CHR 0x5C, CHR ''n'']
      else if c = CHR 0x0C then [CHR 0x5C, CHR ''f'']
      else if c = CHR 0x0D then [CHR 0x5C, CHR ''r'']
      else if (of_char c :: nat) < 32
        then [CHR 0x5C, CHR ''u'', CHR ''0'', CHR ''0'',
              hex_digit ((of_char c :: nat) div 16), hex_digit (of_char c)]
      else [c])"

definition quote_json :: "string \<Rightarrow> string" where
  "quote_json s = CHR 0x22 # concat (map escape_char s) @ [CHR 0x22]"

fun join :: "string \<Rightarrow> string list \<Rightarrow> string" where
  "join sep [] = []"
| "join sep [s] = s"
| "join sep (s # t # ss) = s @ sep @ join sep (t # ss)"

definition JSON_stringify :: "jsobj \<Rightarrow> string" where
  "JSON_stringify obj =
     ''{'' @ join '','' (map (\<lambda>(k, v). quote_json k @ '':'' @ quote_json v) obj) @ ''}''"

subsection \<open>The collaborators: Utils and the Cryptographer\<close>

text \<open>
  Neither object is defined in the file. Each is a record of the functions the Encrypter
  calls, under the names it calls them by.
\<close>

record Utils =
  Base64Url_encode :: "string \<Rightarrow> string"
  Base64Url_encodeArray :: "bytes \<Rightarrow> string"
  arrayFromString :: "string \<Rightarrow> bytes"

text \<open>What the promise of \<^verbatim>\<open>cryptographer.encrypt\<close> is fulfilled with.\<close>

record encrypted =
  cipher :: bytes
  tag :: bytes

text \<open>The same object after the callback of \<^verbatim>\<open>encryptPlainText\<close> has set two more fields.\<close>

record encrypted_data = encrypted +
  header :: string
  iv :: bytes

record ('key, 'cek, 'err) Cryptographer =
  getKeyEncryptionAlgorithm :: string
  getContentEncryptionAlgorithm :: string
  createIV :: bytes
  createCek :: "('err, 'cek) promise"
  wrapCek :: "'cek \<Rightarrow> 'key \<Rightarrow> ('err, bytes) promise"
  encrypt :: "bytes \<Rightarrow> bytes \<Rightarrow> ('err, 'cek) promise \<Rightarrow> bytes \<Rightarrow> ('err, encrypted) promise"

subsection \<open>The Encrypter and the world it runs in\<close>

record ('key, 'cek, 'err) Encrypter =
  cryptographer :: "('key, 'cek, 'err) Cryptographer"
  key_promise :: "('err, 'key) promise"
  userHeaders :: addr

text \<open>
  The trace: the calls on the Cryptographer with their arguments, and the moment the loop of
  \<^verbatim>\<open>encryptPlainText\<close> has copied \<^verbatim>\<open>userHeaders\<close> (with the copy it made).
\<close>

datatype ('key, 'cek, 'err) event =
    CreateCek
  | Snapshot jsobj
  | GetKeyEncryptionAlgorithm
  | GetContentEncryptionAlgorithm
  | CreateIV
  | Encrypt bytes bytes "('err, 'cek) promise" bytes
  | WrapCek 'cek 'key

record ('key, 'cek, 'err) world =
  encrypter :: "('key, 'cek, 'err) Encrypter"
  heap :: "jsobj list"
  trace :: "('key, 'cek, 'err) event list"

definition emit ::
  "('key, 'cek, 'err) event \<Rightarrow> ('key, 'cek, 'err) world \<Rightarrow> ('key, 'cek, 'err) world" where
  "emit ev w = w\<lparr>trace := trace w @ [ev]\<rparr>"

text \<open>
  A promise made by \<^verbatim>\<open>then\<close> or \<^verbatim>\<open>Promise.all\<close> settles when its callbacks have run, which
  is after the call that made it has returned. It is a function of the world the callbacks
  run in, giving the state the promise settles in and the world the callbacks leave.
\<close>

type_synonym ('key, 'cek, 'err, 'a) deferred =
  "('key, 'cek, 'err) world \<Rightarrow> ('err, 'a) promise \<times> ('key, 'cek, 'err) world"

definition settled :: "('err, 'a) promise \<Rightarrow> ('key, 'cek, 'err, 'a) deferred" where
  "settled p = (\<lambda>w. (p, w))"

text \<open>
  \<^verbatim>\<open>p.then(f)\<close> with one callback: \<open>f\<close> runs on the value \<open>p\<close> is fulfilled with and the new
  promise follows the promise \<open>f\<close> returns; a rejection passes through; nothing runs while
  \<open>p\<close> is pending.
\<close>

definition then_p ::
  "('key, 'cek, 'err, 'a) deferred \<Rightarrow> ('a \<Rightarrow> ('key, 'cek, 'err, 'b) deferred) \<Rightarrow>
   ('key, 'cek, 'err, 'b) deferred" where
  "then_p p f =
     (\<lambda>w. case p w of
            (Fulfilled v, w') \<Rightarrow> f v w'
          | (Rejected e, w') \<Rightarrow> (Rejected e, w')
          | (Pending, w') \<Rightarrow> (Pending, w'))"

text \<open>
  \<^verbatim>\<open>Promise.all([p, q])\<close>: fulfilled with both values once both are fulfilled, rejected as
  soon as one is rejected. When both are rejected JavaScript reports the reason that arrives
  first; the model, which has no clock, reports the one of \<open>p\<close>.
\<close>

definition join_all :: "('err, 'a) promise \<Rightarrow> ('err, 'b) promise \<Rightarrow> ('err, 'a \<times> 'b) promise" where
  "join_all a b =
     (case a of
        Rejected e \<Rightarrow> Rejected e
      | Fulfilled x \<Rightarrow> (case b of Rejected e \<Rightarrow> Rejected e | Fulfilled y \<Rightarrow> Fulfilled (x, y) | Pending \<Rightarrow> Pending)
      | Pending \<Rightarrow> (case b of Rejected e \<Rightarrow> Rejected e | _ \<Rightarrow> Pending))"

definition Promise_all ::
  "('key, 'cek, 'err, 'a) deferred \<Rightarrow> ('key, 'cek, 'err, 'b) deferred \<Rightarrow>
   ('key, 'cek, 'err, 'a \<times> 'b) deferred" where
  "Promise_all p q = (\<lambda>w. let (a, w1) = p w; (b, w2) = q w1 in (join_all a b, w2))"

subsection \<open>The constructor and addHeader\<close>

text \<open>Lines 23-28: the constructor keeps its two arguments and allocates \<^verbatim>\<open>userHeaders = {}\<close>.\<close>

definition Encrypter_new ::
  "('key, 'cek, 'err) Cryptographer \<Rightarrow> ('err, 'key) promise \<Rightarrow> jsobj list \<Rightarrow> ('key, 'cek, 'err) world" where
  "Encrypter_new c kp h =
     \<lparr>encrypter = \<lparr>cryptographer = c, key_promise = kp, userHeaders = length h\<rparr>,
      heap = h @ [[]],
      trace = []\<rparr>"

text \<open>Lines 43-45: \<^verbatim>\<open>this.userHeaders[k] = v\<close>.\<close>

definition Encrypter_addHeader ::
  "string \<Rightarrow> string \<Rightarrow> ('key, 'cek, 'err) world \<Rightarrow> ('key, 'cek, 'err) world" where
  "Encrypter_addHeader k v w = w\<lparr>heap := store (userHeaders (encrypter w)) k v (heap w)\<rparr>"

subsection \<open>encrypt\<close>

text \<open>
  Lines 66-68: \<^verbatim>\<open>for (var i in self.userHeaders) headers[i] = self.userHeaders[i]\<close>, over the
  keys the source object has when the loop starts.
\<close>

fun copy_headers :: "string list \<Rightarrow> addr \<Rightarrow> addr \<Rightarrow> jsobj list \<Rightarrow> jsobj list" where
  "copy_headers [] src dst h = h"
| "copy_headers (i # rest) src dst h =
     copy_headers rest src dst (case load src i h of Some v \<Rightarrow> store dst i v h | None \<Rightarrow> h)"

text \<open>
  Lines 62-85, the inner function \<^verbatim>\<open>encryptPlainText\<close>. All of it runs inside the call of
  \<^verbatim>\<open>encrypt\<close> but the callback of line 80, which runs when the Cryptographer's promise is
  fulfilled.
\<close>

definition encryptPlainText ::
  "Utils \<Rightarrow> ('err, 'cek) promise \<Rightarrow> string \<Rightarrow> ('key, 'cek, 'err) world \<Rightarrow>
   ('key, 'cek, 'err, encrypted_data) deferred \<times> ('key, 'cek, 'err) world" where
  "encryptPlainText U cek_promise plain_text w0 =
     (let self = encrypter w0;
          headers = length (heap w0);
          w1 = w0\<lparr>heap := heap w0 @ [[]]\<rparr>;
          w2 = w1\<lparr>heap := copy_headers (own_keys (heap w1 ! userHeaders self))
                               (userHeaders self) headers (heap w1)\<rparr>;
          w3 = emit (Snapshot (heap w2 ! headers)) w2;
          w4 = emit GetKeyEncryptionAlgorithm w3;
          w5 = w4\<lparr>heap := store headers ''alg'' (getKeyEncryptionAlgorithm (cryptographer self)) (heap w4)\<rparr>;
          w6 = emit GetContentEncryptionAlgorithm w5;
          w7 = w6\<lparr>heap := store headers ''enc'' (getContentEncryptionAlgorithm (cryptographer self)) (heap w6)\<rparr>;
          jwe_protected_header = Base64Url_encode U (JSON_stringify (heap w7 ! headers));
          w8 = emit CreateIV w7;
          iv = createIV (cryptographer self);
          aad = arrayFromString U jwe_protected_header;
          plain_text' = arrayFromString U plain_text;
          w9 = emit (Encrypt iv aad cek_promise plain_text') w8
      in (then_p (settled (encrypt (cryptographer self) iv aad cek_promise plain_text'))
            (\<lambda>r. settled (Fulfilled \<lparr>cipher = cipher r, tag = tag r,
                                      header = jwe_protected_header, iv = iv\<rparr>)),
          w9))"

text \<open>
  Lines 53-110. The callback of line 91 is bound to \<^verbatim>\<open>this\<close> and reads
  \<^verbatim>\<open>this.cryptographer\<close> when it runs, so it takes the Cryptographer from the world it runs in.
\<close>

definition Encrypter_encrypt ::
  "Utils \<Rightarrow> string \<Rightarrow> ('key, 'cek, 'err) world \<Rightarrow>
   ('key, 'cek, 'err, string) deferred \<times> ('key, 'cek, 'err) world" where
  "Encrypter_encrypt U plain_text w0 =
     (let that = encrypter w0;
          w1 = emit CreateCek w0;
          cek_promise = createCek (cryptographer that);
          encrypted_cek =
            then_p (Promise_all (settled (key_promise that)) (settled cek_promise))
              (\<lambda>(key, cek) w. (wrapCek (cryptographer (encrypter w)) cek key, emit (WrapCek cek key) w));
          (enc_promise, w2) = encryptPlainText U cek_promise plain_text w1
      in (then_p (Promise_all encrypted_cek enc_promise)
            (\<lambda>(encrypted_cek, data).
               settled (Fulfilled
                 (header data @ ''.'' @
                  Base64Url_encodeArray U encrypted_cek @ ''.'' @
                  Base64Url_encodeArray U (iv data) @ ''.'' @
                  Base64Url_encodeArray U (cipher data) @ ''.'' @
                  Base64Url_encodeArray U (tag data)))),
          w2))"

subsection \<open>A concrete Utils and a test Cryptographer\<close>

text \<open>
  Modelled from the spec: \<^verbatim>\<open>Utils.Base64Url.encode\<close> and \<^verbatim>\<open>Utils.Base64Url.encodeArray\<close>
  are not in the file. The spec gives their contract: base64url without padding, of a string
  and of a byte sequence. \<open>sextet\<close> is the base64url alphabet, \<open>base64url\<close> the encoding of
  a byte sequence: three bytes give four characters, a rest of two bytes three, a rest of one
  byte two.
\<close>

definition sextet :: "nat \<Rightarrow> char" where
  "sextet n = ''ABCDEFGHIJKLMNOPQRSTUVWXYZabcdefghijklmnopqrstuvwxyz0123456789-_'' ! (n mod 64)"

fun base64url :: "bytes \<Rightarrow> string" where
  "base64url (a # b # c # bs) =
     (let n = unat a * 65536 + unat b * 256 + unat c
      in sextet (n div 262144) # sextet (n div 4096) # sextet (n div 64) # sextet n # base64url bs)"
| "base64url [a, b] =
     (let n = unat a * 1024 + unat b * 4
      in [sextet (n div 4096), sextet (n div 64), sextet n])"
| "base64url [a] =
     (let n = unat a * 16
      in [sextet (n div 64), sextet n])"
| "base64url [] = []"

text \<open>
  Modelled from the spec: \<^verbatim>\<open>Utils.arrayFromString\<close>, the bytes of a string (one byte for each
  character of the model's strings).
\<close>

definition utf8Bytes :: "string \<Rightarrow> bytes" where
  "utf8Bytes s = map of_char s"

text \<open>Modelled from the spec: the \<^verbatim>\<open>Utils\<close> object, made of the three functions above.\<close>

definition base64Utils :: Utils where
  "base64Utils =
     \<lparr>Base64Url_encode = (\<lambda>s. base64url (utf8Bytes s)),
      Base64Url_encodeArray = base64url,
      arrayFromString = utf8Bytes\<rparr>"

text \<open>
  The Cryptographer of the spec's end-to-end scenario: it reports \<^verbatim>\<open>dir\<close> and \<^verbatim>\<open>A128GCM\<close>,
  and has a fixed key, a fixed IV of twelve bytes, an empty wrapped key and a fixed ciphertext
  and tag.
\<close>

definition mockCryptographer :: "(nat, nat, string) Cryptographer" where
  "mockCryptographer =
     \<lparr>getKeyEncryptionAlgorithm = ''dir'',
      getContentEncryptionAlgorithm = ''A128GCM'',
      createIV = [0, 1, 2, 3, 4, 5, 6, 7, 8, 9, 10, 11],
      createCek = Fulfilled 7,
      wrapCek = (\<lambda>cek key. Fulfilled []),
      encrypt = (\<lambda>iv aad cek_promise plain_text. Fulfilled \<lparr>cipher = [222, 173], tag = [190, 239]\<rparr>)\<rparr>"

definition mockWorld :: "(nat, nat, string) world" where
  "mockWorld = Encrypter_new mockCryptographer (Fulfilled 1) []"

definition mockStart :: "(nat, nat, string) world" where
  "mockStart = Encrypter_addHeader ''kid'' ''1'' mockWorld"

text \<open>The same Encrypter with a recipient-key promise that is rejected.\<close>

definition mockRejected :: "(nat, nat, string) world" where
  "mockRejected = Encrypter_new mockCryptographer (Rejected ''KeyUnavailable'') []"

text \<open>
  A test double that records what it is given: the promise of its \<^verbatim>\<open>encrypt\<close> is fulfilled
  with the AAD it received as ciphertext and the plaintext bytes it received as tag. Apart from
  that it is the Cryptographer above.
\<close>

definition recordingCryptographer :: "(nat, nat, string) Cryptographer" where
  "recordingCryptographer =
     mockCryptographer\<lparr>encrypt :=
       (\<lambda>iv aad cek_promise plain_text. Fulfilled \<lparr>cipher = aad, tag = plain_text\<rparr>)\<rparr>"

definition recordingStart :: "(nat, nat, string) world" where
  "recordingStart =
     Encrypter_addHeader ''kid'' ''1'' (Encrypter_new recordingCryptographer (Fulfilled 1) [])"

subsection \<open>What the claims observe\<close>

text \<open>
  The object \<^verbatim>\<open>headers\<close> of \<^verbatim>\<open>encryptPlainText\<close> is allocated at the first free address;
  \<open>final_headers\<close> is that object as the call of \<^verbatim>\<open>encrypt\<close> leaves it, and
  \<open>protected_header\<close> the string \<^verbatim>\<open>jwe_protected_header\<close> made from it.
\<close>

definition final_headers :: "Utils \<Rightarrow> string \<Rightarrow> ('key, 'cek, 'err) world \<Rightarrow> jsobj" where
  "final_headers U plain_text w = heap (snd (Encrypter_encrypt U plain_text w)) ! length (heap w)"

definition protected_header :: "Utils \<Rightarrow> string \<Rightarrow> ('key, 'cek, 'err) world \<Rightarrow> string" where
  "protected_header U plain_text w = Base64Url_encode U (JSON_stringify (final_headers U plain_text w))"

text \<open>The events a step has added to the trace.\<close>

definition new_events ::
  "('key, 'cek, 'err) world \<Rightarrow> ('key, 'cek, 'err) world \<Rightarrow> ('key, 'cek, 'err) event list" where
  "new_events w w' = drop (length (trace w)) (trace w')"

text \<open>
  The Encrypter's \<^verbatim>\<open>userHeaders\<close> refers to an object of the heap. The constructor
  establishes this and every operation keeps it.
\<close>

definition allocated :: "('key, 'cek, 'err) world \<Rightarrow> bool" where
  "allocated w = (userHeaders (encrypter w) < length (heap w))"

text \<open>A token cut at its separators, as \<^verbatim>\<open>token.split(".")\<close> cuts it.\<close>

fun segments :: "string \<Rightarrow> string list" where
  "segments [] = [[]]"
| "segments (c # cs) =
     (if c = CHR ''.'' then [] # segments cs
      else (case segments cs of [] \<Rightarrow> [[c]] | s # ss \<Rightarrow> (c # s) # ss))"

text \<open>
  The part of the encoders' contract that the token format relies on: a base64url encoder
  never writes the separator.
\<close>

definition dot_free :: "Utils \<Rightarrow> bool" where
  "dot_free U =
     ((\<forall>s. CHR ''.'' \<notin> set (Base64Url_encode U s)) \<and> (\<forall>b. CHR ''.'' \<notin> set (Base64Url_encodeArray U b)))"

text \<open>
  The five segments of the compact serialization, in their order: the protected header as it
  is, then the wrapped key, the IV, the ciphertext and the tag, each encoded.
\<close>

definition compact :: "Utils \<Rightarrow> string \<Rightarrow> bytes \<Rightarrow> bytes \<Rightarrow> bytes \<Rightarrow> bytes \<Rightarrow> string list" where
  "compact U hdr wrapped_cek i c t =
     [hdr, Base64Url_encodeArray U wrapped_cek, Base64Url_encodeArray U i,
      Base64Url_encodeArray U c, Base64Url_encodeArray U t]"

text \<open>
  Every event but \<open>Snapshot\<close> is a call on the Cryptographer; \<open>calls_before_snapshot\<close> are
  the calls made before the copy of \<^verbatim>\<open>userHeaders\<close> exists.
\<close>

fun is_snapshot :: "('key, 'cek, 'err) event \<Rightarrow> bool" where
  "is_snapshot (Snapshot S) = True"
| "is_snapshot ev = False"

definition calls_before_snapshot ::
  "('key, 'cek, 'err) event list \<Rightarrow> ('key, 'cek, 'err) event list" where
  "calls_before_snapshot evs = takeWhile (\<lambda>ev. \<not> is_snapshot ev) evs"

text \<open>The arguments of the calls of \<^verbatim>\<open>cryptographer.encrypt\<close>: IV, AAD and plaintext bytes.\<close>

fun encrypt_calls :: "('key, 'cek, 'err) event list \<Rightarrow> (bytes \<times> bytes \<times> bytes) list" where
  "encrypt_calls [] = []"
| "encrypt_calls (Encrypt i a cp pt # evs) = (i, a, pt) # encrypt_calls evs"
| "encrypt_calls (ev # evs) = encrypt_calls evs"

definition aad_arguments :: "('key, 'cek, 'err) event list \<Rightarrow> bytes list" where
  "aad_arguments evs = map (\<lambda>(i, a, pt). a) (encrypt_calls evs)"

text \<open>The arguments of the calls of \<^verbatim>\<open>cryptographer.wrapCek\<close>.\<close>

fun wrap_calls :: "('key, 'cek, 'err) event list \<Rightarrow> ('cek \<times> 'key) list" where
  "wrap_calls [] = []"
| "wrap_calls (WrapCek c k # evs) = (c, k) # wrap_calls evs"
| "wrap_calls (ev # evs) = wrap_calls evs"

text \<open>
  The reasons of the sub-operations of one call of \<^verbatim>\<open>encrypt\<close> that fail: the recipient key,
  the creation of the CEK, the wrapping of the CEK (attempted only when key and CEK are both
  there) and the content encryption. The callbacks run in the world \<open>w2\<close>.
\<close>

definition reasons :: "('err, 'a) promise \<Rightarrow> 'err list" where
  "reasons p = (case p of Rejected e \<Rightarrow> [e] | _ \<Rightarrow> [])"

definition failures ::
  "Utils \<Rightarrow> string \<Rightarrow> ('key, 'cek, 'err) world \<Rightarrow> ('key, 'cek, 'err) world \<Rightarrow> 'err list" where
  "failures U plain_text w w2 =
     (let C = cryptographer (encrypter w);
          kp = key_promise (encrypter w);
          cp = createCek C
      in reasons kp @ reasons cp @
         (case kp of
            Fulfilled key \<Rightarrow>
              (case cp of
                 Fulfilled cek \<Rightarrow> reasons (wrapCek (cryptographer (encrypter w2)) cek key)
               | _ \<Rightarrow> [])
          | _ \<Rightarrow> []) @
         reasons (encrypt C (createIV C) (arrayFromString U (protected_header U plain_text w)) cp
                    (arrayFromString U plain_text)))"

section \<open>Properties of the model\<close>

subsection \<open>Objects and the heap\<close>

lemma length_store [simp]: "length (store a k v h) = length h"
  by (simp add: store_def)

lemma nth_store_same: "a < length h \<Longrightarrow> store a k v h ! a = set_prop k v (h ! a)"
  by (simp add: store_def)

lemma nth_store_other: "b \<noteq> a \<Longrightarrow> store a k v h ! b = h ! b"
  by (simp add: store_def)

lemma length_copy_headers [simp]: "length (copy_headers ks src dst h) = length h"
  by (induction ks arbitrary: h) (auto split: option.splits)

lemma copy_headers_other: "a \<noteq> dst \<Longrightarrow> copy_headers ks src dst h ! a = h ! a"
  by (induction ks arbitrary: h) (auto simp: nth_store_other split: option.splits)

lemma map_of_update_prop:
  "map_of (update_prop k v obj) = (if k \<in> fst ` set obj then (map_of obj)(k \<mapsto> v) else map_of obj)"
  by (induction obj) (auto simp: fun_eq_iff)

lemma map_of_insert_index:
  "k \<notin> fst ` set obj \<Longrightarrow> map_of (insert_index n k v obj) = (map_of obj)(k \<mapsto> v)"
  by (induction obj) (auto simp: fun_eq_iff split: option.splits)

lemma get_prop_set_prop:
  "get_prop (set_prop k v obj) k' =
     (if k = ''__proto__'' then get_prop obj k' else if k' = k then Some v else get_prop obj k')"
proof (cases "k \<in> fst ` set obj")
  case True
  then show ?thesis
    by (simp add: get_prop_def set_prop_def own_keys_def map_of_update_prop)
next
  case False
  then have "map_of obj k = None"
    by (simp add: map_of_eq_None_iff)
  with False show ?thesis
    by (auto simp: get_prop_def set_prop_def own_keys_def map_of_insert_index map_add_def
        split: option.splits)
qed

lemma keys_update_prop: "map fst (update_prop k v obj) = map fst obj"
  by (induction obj) auto

lemma keys_insert_index: "fst ` set (insert_index n k v obj) = insert k (fst ` set obj)"
  by (induction obj) (auto split: option.splits)

lemma distinct_insert_index:
  "distinct (map fst obj) \<Longrightarrow> k \<notin> fst ` set obj \<Longrightarrow> distinct (map fst (insert_index n k v obj))"
  by (induction obj) (auto simp: keys_insert_index split: option.splits)

lemma distinct_set_prop: "distinct (own_keys obj) \<Longrightarrow> distinct (own_keys (set_prop k v obj))"
  by (auto simp: set_prop_def own_keys_def keys_update_prop distinct_insert_index split: option.splits)

text \<open>The loop writes into the target object only, and this is what it leaves there.\<close>

lemma copy_headers_dst:
  "src \<noteq> dst \<Longrightarrow> dst < length h \<Longrightarrow>
   get_prop (copy_headers ks src dst h ! dst) k =
     (if k \<in> set ks \<and> k \<noteq> ''__proto__'' \<and> get_prop (h ! src) k \<noteq> None then get_prop (h ! src) k
      else get_prop (h ! dst) k)"
proof (induction ks arbitrary: h)
  case Nil
  then show ?case by simp
next
  case (Cons i rest)
  show ?case
  proof (cases "load src i h")
    case None
    with Cons show ?thesis by (auto simp: load_def)
  next
    case (Some v)
    let ?h = "store dst i v h"
    have src: "?h ! src = h ! src" using Cons.prems by (simp add: nth_store_other)
    have dst: "?h ! dst = set_prop i v (h ! dst)" using Cons.prems by (simp add: nth_store_same)
    have "get_prop (copy_headers rest src dst ?h ! dst) k =
      (if k \<in> set rest \<and> k \<noteq> ''__proto__'' \<and> get_prop (?h ! src) k \<noteq> None then get_prop (?h ! src) k
       else get_prop (?h ! dst) k)"
      using Cons.prems by (intro Cons.IH) simp_all
    with Some show ?thesis
      by (auto simp: src dst get_prop_set_prop load_def)
  qed
qed

lemma distinct_copy_headers:
  "dst < length h \<Longrightarrow> distinct (own_keys (h ! dst)) \<Longrightarrow>
   distinct (own_keys (copy_headers ks src dst h ! dst))"
  by (induction ks arbitrary: h) (auto simp: nth_store_same distinct_set_prop split: option.splits)

subsection \<open>The synchronous part of encrypt\<close>

lemma heap_emit [simp]: "heap (emit ev w) = heap w"
  and encrypter_emit [simp]: "encrypter (emit ev w) = encrypter w"
  and trace_emit [simp]: "trace (emit ev w) = trace w @ [ev]"
  by (simp_all add: emit_def)

lemma encryptPlainText_encrypter: "encrypter (snd (encryptPlainText U cp pt w)) = encrypter w"
  by (simp add: encryptPlainText_def Let_def)

lemma encryptPlainText_length: "length (heap (snd (encryptPlainText U cp pt w))) = Suc (length (heap w))"
  by (simp add: encryptPlainText_def Let_def)

lemma encryptPlainText_old:
  "a < length (heap w) \<Longrightarrow> heap (snd (encryptPlainText U cp pt w)) ! a = heap w ! a"
  by (simp add: encryptPlainText_def Let_def nth_store_other copy_headers_other nth_append)

lemma encryptPlainText_trace:
  "trace (snd (encryptPlainText U cp pt w)) =
     trace w @
     [Snapshot (copy_headers (own_keys ((heap w @ [[]]) ! userHeaders (encrypter w)))
                  (userHeaders (encrypter w)) (length (heap w)) (heap w @ [[]]) ! length (heap w)),
      GetKeyEncryptionAlgorithm, GetContentEncryptionAlgorithm, CreateIV,
      Encrypt (createIV (cryptographer (encrypter w)))
        (arrayFromString U
           (Base64Url_encode U (JSON_stringify (heap (snd (encryptPlainText U cp pt w)) ! length (heap w)))))
        cp (arrayFromString U pt)]"
  by (simp add: encryptPlainText_def Let_def)

lemma encryptPlainText_run:
  "fst (encryptPlainText U cp pt w) w2 =
     (case encrypt (cryptographer (encrypter w)) (createIV (cryptographer (encrypter w)))
             (arrayFromString U
               (Base64Url_encode U (JSON_stringify (heap (snd (encryptPlainText U cp pt w)) ! length (heap w)))))
             cp (arrayFromString U pt) of
        Pending \<Rightarrow> Pending
      | Fulfilled r \<Rightarrow>
          Fulfilled \<lparr>cipher = cipher r, tag = tag r,
            header = Base64Url_encode U (JSON_stringify (heap (snd (encryptPlainText U cp pt w)) ! length (heap w))),
            iv = createIV (cryptographer (encrypter w))\<rparr>
      | Rejected e \<Rightarrow> Rejected e,
      w2)"
  by (simp add: encryptPlainText_def Let_def then_p_def settled_def split: promise.splits)

lemma encrypt_snd:
  "snd (Encrypter_encrypt U pt w) =
     snd (encryptPlainText U (createCek (cryptographer (encrypter w))) pt (emit CreateCek w))"
  by (simp add: Encrypter_encrypt_def Let_def split_def)

subsection \<open>The promise encrypt returns\<close>

text \<open>The state the returned promise settles in when its callbacks run in the world \<open>w2\<close>.\<close>

lemma encrypt_run:
  "fst (Encrypter_encrypt U pt w) w2 =
     (case join_all (key_promise (encrypter w)) (createCek (cryptographer (encrypter w))) of
        Pending \<Rightarrow>
          (case encrypt (cryptographer (encrypter w)) (createIV (cryptographer (encrypter w)))
                  (arrayFromString U (protected_header U pt w))
                  (createCek (cryptographer (encrypter w))) (arrayFromString U pt) of
             Rejected e \<Rightarrow> Rejected e | _ \<Rightarrow> Pending, w2)
      | Rejected e \<Rightarrow> (Rejected e, w2)
      | Fulfilled (key, cek) \<Rightarrow>
          (case join_all (wrapCek (cryptographer (encrypter w2)) cek key)
                  (encrypt (cryptographer (encrypter w)) (createIV (cryptographer (encrypter w)))
                     (arrayFromString U (protected_header U pt w))
                     (createCek (cryptographer (encrypter w))) (arrayFromString U pt)) of
             Pending \<Rightarrow> Pending
           | Rejected e \<Rightarrow> Rejected e
           | Fulfilled (encrypted_cek, r) \<Rightarrow>
               Fulfilled (join ''.''
                 (compact U (protected_header U pt w) encrypted_cek
                    (createIV (cryptographer (encrypter w))) (cipher r) (tag r))),
           emit (WrapCek cek key) w2))"
  unfolding protected_header_def final_headers_def encrypt_snd compact_def
  by (simp add: Encrypter_encrypt_def Let_def split_def then_p_def Promise_all_def settled_def
      encryptPlainText_run join_all_def split: promise.splits)

text \<open>The events of the call itself, in the order the code produces them.\<close>

lemma encrypt_trace:
  "trace (snd (Encrypter_encrypt U pt w)) =
     trace w @
     [CreateCek,
      Snapshot (copy_headers (own_keys ((heap w @ [[]]) ! userHeaders (encrypter w)))
                  (userHeaders (encrypter w)) (length (heap w)) (heap w @ [[]]) ! length (heap w)),
      GetKeyEncryptionAlgorithm, GetContentEncryptionAlgorithm, CreateIV,
      Encrypt (createIV (cryptographer (encrypter w)))
        (arrayFromString U (protected_header U pt w))
        (createCek (cryptographer (encrypter w))) (arrayFromString U pt)]"
  unfolding protected_header_def final_headers_def encrypt_snd
  by (simp add: encryptPlainText_trace)


lemma run_world:
  "snd (fst (Encrypter_encrypt U pt w) w2) =
     (case join_all (key_promise (encrypter w)) (createCek (cryptographer (encrypter w))) of
        Fulfilled (key, cek) \<Rightarrow> emit (WrapCek cek key) w2
      | _ \<Rightarrow> w2)"
  by (simp add: encrypt_run split: promise.splits)

lemma run_encrypter: "encrypter (snd (fst (Encrypter_encrypt U pt w) w2)) = encrypter w2"
  and run_heap: "heap (snd (fst (Encrypter_encrypt U pt w) w2)) = heap w2"
  by (simp_all add: run_world split: promise.splits)

text \<open>When the returned promise is fulfilled, and with what.\<close>

lemma encrypt_fulfilled_iff:
  "(fst (fst (Encrypter_encrypt U pt w) w2) = Fulfilled token) =
     (\<exists>key cek encrypted_cek r.
        key_promise (encrypter w) = Fulfilled key
      \<and> createCek (cryptographer (encrypter w)) = Fulfilled cek
      \<and> wrapCek (cryptographer (encrypter w2)) cek key = Fulfilled encrypted_cek
      \<and> encrypt (cryptographer (encrypter w)) (createIV (cryptographer (encrypter w)))
           (arrayFromString U (protected_header U pt w)) (Fulfilled cek) (arrayFromString U pt)
         = Fulfilled r
      \<and> token = join ''.''
           (compact U (protected_header U pt w) encrypted_cek
              (createIV (cryptographer (encrypter w))) (cipher r) (tag r)))"
  by (cases "key_promise (encrypter w)"; cases "createCek (cryptographer (encrypter w))")
     (auto simp: encrypt_run join_all_def split: promise.splits)

lemma token_starts_with_header:
  "fst (fst (Encrypter_encrypt U pt w) w2) = Fulfilled token \<Longrightarrow>
   \<exists>rest. token = protected_header U pt w @ ''.'' @ rest"
  by (auto simp: encrypt_fulfilled_iff compact_def)

subsection \<open>The Encrypter's own state\<close>

lemma encrypter_addHeader [simp]: "encrypter (Encrypter_addHeader k v w) = encrypter w"
  and trace_addHeader [simp]: "trace (Encrypter_addHeader k v w) = trace w"
  and length_heap_addHeader [simp]: "length (heap (Encrypter_addHeader k v w)) = length (heap w)"
  by (simp_all add: Encrypter_addHeader_def)

lemma encrypter_addHeaders:
  "encrypter (fold (\<lambda>(k, v). Encrypter_addHeader k v) kvs w) = encrypter w"
  by (induction kvs arbitrary: w) (auto simp: split_def)

lemma heap_addHeader_user:
  "allocated w \<Longrightarrow>
   heap (Encrypter_addHeader k v w) ! userHeaders (encrypter w)
     = set_prop k v (heap w ! userHeaders (encrypter w))"
  by (simp add: Encrypter_addHeader_def allocated_def nth_store_same)

lemma heap_addHeader_other:
  "a \<noteq> userHeaders (encrypter w) \<Longrightarrow> heap (Encrypter_addHeader k v w) ! a = heap w ! a"
  by (simp add: Encrypter_addHeader_def nth_store_other)

lemma encrypt_encrypter: "encrypter (snd (Encrypter_encrypt U pt w)) = encrypter w"
  by (simp add: encrypt_snd encryptPlainText_encrypter)

lemma encrypt_length: "length (heap (snd (Encrypter_encrypt U pt w))) = Suc (length (heap w))"
  by (simp add: encrypt_snd encryptPlainText_length)

lemma encrypt_old: "a < length (heap w) \<Longrightarrow> heap (snd (Encrypter_encrypt U pt w)) ! a = heap w ! a"
  by (simp add: encrypt_snd encryptPlainText_old)

lemma encrypt_take: "take (length (heap w)) (heap (snd (Encrypter_encrypt U pt w))) = heap w"
  by (rule nth_equalityI) (simp_all add: encrypt_length encrypt_old)

text \<open>The invariant: the constructor establishes it, every operation keeps it.\<close>

lemma allocated_new: "allocated (Encrypter_new c kp h)"
  by (simp add: allocated_def Encrypter_new_def)

lemma allocated_addHeader [simp]: "allocated (Encrypter_addHeader k v w) = allocated w"
  by (simp add: allocated_def)

lemma allocated_encrypt: "allocated w \<Longrightarrow> allocated (snd (Encrypter_encrypt U pt w))"
  by (simp add: allocated_def encrypt_encrypter encrypt_length)

lemma allocated_run: "allocated w2 \<Longrightarrow> allocated (snd (fst (Encrypter_encrypt U pt w) w2))"
  by (simp add: allocated_def run_encrypter run_heap)


subsection \<open>The header object of a call\<close>

lemma final_headers_eq:
  "final_headers U pt w =
     set_prop ''enc'' (getContentEncryptionAlgorithm (cryptographer (encrypter w)))
       (set_prop ''alg'' (getKeyEncryptionAlgorithm (cryptographer (encrypter w)))
          (copy_headers (own_keys ((heap w @ [[]]) ! userHeaders (encrypter w)))
             (userHeaders (encrypter w)) (length (heap w)) (heap w @ [[]]) ! length (heap w)))"
  by (simp add: final_headers_def encrypt_snd encryptPlainText_def Let_def nth_store_same)

lemma copied_headers:
  assumes "allocated w"
  shows "get_prop (copy_headers (own_keys ((heap w @ [[]]) ! userHeaders (encrypter w)))
             (userHeaders (encrypter w)) (length (heap w)) (heap w @ [[]]) ! length (heap w)) k =
         (if k = ''__proto__'' then None else get_prop (heap w ! userHeaders (encrypter w)) k)"
proof -
  let ?src = "userHeaders (encrypter w)" and ?dst = "length (heap w)" and ?h = "heap w @ [[]]"
  have src: "?src \<noteq> ?dst" "?h ! ?src = heap w ! ?src" and dst: "?dst < length ?h" "?h ! ?dst = []"
    using assms by (simp_all add: allocated_def nth_append)
  have keys: "k \<in> set (own_keys (heap w ! ?src)) \<longleftrightarrow> get_prop (heap w ! ?src) k \<noteq> None"
    by (simp add: own_keys_def get_prop_def map_of_eq_None_iff)
  show ?thesis
    using copy_headers_dst[OF src(1) dst(1), of "own_keys (?h ! ?src)" k] keys
    by (auto simp: src(2) dst(2) get_prop_def)
qed

lemma final_headers_distinct: "distinct (own_keys (final_headers U pt w))"
proof -
  have "distinct (own_keys (copy_headers (own_keys ((heap w @ [[]]) ! userHeaders (encrypter w)))
             (userHeaders (encrypter w)) (length (heap w)) (heap w @ [[]]) ! length (heap w)))"
    by (rule distinct_copy_headers) (simp_all add: own_keys_def)
  then show ?thesis
    by (simp add: final_headers_eq distinct_set_prop)
qed

lemma final_headers_user:
  "allocated w \<Longrightarrow> k \<noteq> ''alg'' \<Longrightarrow> k \<noteq> ''enc'' \<Longrightarrow> k \<noteq> ''__proto__'' \<Longrightarrow>
   get_prop (final_headers U pt w) k = get_prop (heap w ! userHeaders (encrypter w)) k"
  by (simp add: final_headers_eq get_prop_set_prop copied_headers)

lemma final_headers_alg:
  "get_prop (final_headers U pt w) ''alg'' = Some (getKeyEncryptionAlgorithm (cryptographer (encrypter w)))"
  and final_headers_enc:
  "get_prop (final_headers U pt w) ''enc'' = Some (getContentEncryptionAlgorithm (cryptographer (encrypter w)))"
  by (simp_all add: final_headers_eq get_prop_set_prop)

lemma filter_key:
  "distinct (map fst xs) \<Longrightarrow> map_of xs k = Some v \<Longrightarrow> filter (\<lambda>p. fst p = k) xs = [(k, v)]"
proof (induction xs)
  case Nil
  then show ?case by simp
next
  case (Cons p xs)
  show ?case
  proof (cases "fst p = k")
    case True
    with Cons.prems have "k \<notin> set (map fst xs)"
      by simp
    then have "\<And>q. q \<in> set xs \<Longrightarrow> fst q \<noteq> k"
      by (metis image_eqI set_map)
    then have "filter (\<lambda>p. fst p = k) xs = []"
      by (simp add: filter_empty_conv)
    with True Cons.prems show ?thesis by (cases p) auto
  next
    case False
    with Cons show ?thesis by (cases p) auto
  qed
qed

subsection \<open>Tokens and the base64url encoder\<close>

lemma segments_nonempty: "segments s \<noteq> []"
  by (induction s) (auto split: list.splits)

lemma segments_single: "CHR ''.'' \<notin> set a \<Longrightarrow> segments a = [a]"
  by (induction a) auto

lemma segments_append: "CHR ''.'' \<notin> set a \<Longrightarrow> segments (a @ CHR ''.'' # rest) = a # segments rest"
  by (induction a) auto

lemma header_dot_free: "dot_free U \<Longrightarrow> CHR ''.'' \<notin> set (protected_header U pt w)"
  by (simp add: dot_free_def protected_header_def)

lemma segments_compact:
  assumes "dot_free U" and "CHR ''.'' \<notin> set hdr"
  shows "segments (join ''.'' (compact U hdr wrapped_cek i c t)) = compact U hdr wrapped_cek i c t"
  using assms by (simp add: compact_def dot_free_def segments_append segments_single)

lemma count_compact:
  assumes "dot_free U" and "CHR ''.'' \<notin> set hdr"
  shows "count_list (join ''.'' (compact U hdr wrapped_cek i c t)) (CHR ''.'') = 4"
  using assms by (simp add: compact_def dot_free_def count_list_0_iff)

lemma sextet_not_dot: "sextet n \<noteq> CHR ''.''"
proof -
  let ?a = "''ABCDEFGHIJKLMNOPQRSTUVWXYZabcdefghijklmnopqrstuvwxyz0123456789-_''"
  have "length ?a = 64" by simp
  then have "?a ! (n mod 64) \<in> set ?a" by (intro nth_mem) simp
  moreover have "CHR ''.'' \<notin> set ?a" by simp
  ultimately show ?thesis unfolding sextet_def by metis
qed

lemma base64url_no_dot: "CHR ''.'' \<notin> set (base64url bs)"
  by (induction bs rule: base64url.induct) (simp_all add: Let_def sextet_not_dot[symmetric])

lemma dot_free_base64Utils: "dot_free base64Utils"
  by (simp add: dot_free_def base64Utils_def base64url_no_dot)




lemma reasons_simps [simp]:
  "reasons Pending = []" "reasons (Fulfilled x) = []" "reasons (Rejected e) = [e]"
  by (simp_all add: reasons_def)

subsection \<open>The test scenario, evaluated\<close>

lemma mockStart_eq:
  "mockStart =
     \<lparr>encrypter = \<lparr>cryptographer = mockCryptographer, key_promise = Fulfilled 1, userHeaders = 0\<rparr>,
      heap = [[(''kid'', ''1'')]], trace = []\<rparr>"
  by (simp add: mockStart_def mockWorld_def Encrypter_new_def Encrypter_addHeader_def store_def
      set_prop_def own_keys_def array_index_def is_digit_def)

lemma mock_encrypter:
  "cryptographer (encrypter mockStart) = mockCryptographer"
  "key_promise (encrypter mockStart) = Fulfilled 1"
  "userHeaders (encrypter mockStart) = 0"
  "heap mockStart = [[(''kid'', ''1'')]]"
  "trace mockStart = []"
  by (simp_all add: mockStart_eq)

lemma mock_fields:
  "getKeyEncryptionAlgorithm mockCryptographer = ''dir''"
  "getContentEncryptionAlgorithm mockCryptographer = ''A128GCM''"
  "createCek mockCryptographer = Fulfilled 7"
  "wrapCek mockCryptographer c k = Fulfilled []"
  "encrypt mockCryptographer i a cp pt = Fulfilled \<lparr>cipher = [222, 173], tag = [190, 239]\<rparr>"
  by (simp_all add: mockCryptographer_def)

lemma mock_arrayFromString: "arrayFromString base64Utils s = utf8Bytes s"
  by (simp add: base64Utils_def)

lemma mock_allocated: "allocated mockWorld" "allocated mockStart" "allocated mockRejected"
  by (simp_all add: mockStart_def mockWorld_def mockRejected_def allocated_new)

lemma mock_final_headers:
  "final_headers base64Utils pt mockStart = [(''kid'', ''1''), (''alg'', ''dir''), (''enc'', ''A128GCM'')]"
  by (simp add: final_headers_eq mockStart_eq store_def load_def set_prop_def get_prop_def own_keys_def
      array_index_def is_digit_def mockCryptographer_def)

lemma mock_protected_header:
  "protected_header base64Utils pt mockStart = ''eyJraWQiOiIxIiwiYWxnIjoiZGlyIiwiZW5jIjoiQTEyOEdDTSJ9''"
  unfolding protected_header_def mock_final_headers
  by (simp add: JSON_stringify_def quote_json_def escape_char_def base64Utils_def utf8Bytes_def
      sextet_def)

lemma mock_compact:
  "compact base64Utils hdr [] (createIV mockCryptographer) [222, 173] [190, 239]
     = [hdr, [], ''AAECAwQFBgcICQoL'', ''3q0'', ''vu8'']"
  by (simp add: compact_def base64Utils_def mockCryptographer_def sextet_def)

lemma mock_token:
  "cryptographer (encrypter w2) = mockCryptographer \<Longrightarrow>
   fst (fst (Encrypter_encrypt base64Utils pt mockStart) w2) =
     Fulfilled ''eyJraWQiOiIxIiwiYWxnIjoiZGlyIiwiZW5jIjoiQTEyOEdDTSJ9..AAECAwQFBgcICQoL.3q0.vu8''"
  by (simp add: encrypt_run mock_encrypter mock_fields join_all_def mock_compact
      mock_protected_header)

lemma mock_new_events:
  "new_events mockStart (snd (Encrypter_encrypt base64Utils pt mockStart)) =
     [CreateCek, Snapshot [(''kid'', ''1'')], GetKeyEncryptionAlgorithm, GetContentEncryptionAlgorithm,
      CreateIV,
      Encrypt (createIV mockCryptographer)
        (arrayFromString base64Utils (protected_header base64Utils pt mockStart))
        (createCek mockCryptographer) (arrayFromString base64Utils pt)]"
  by (simp add: new_events_def encrypt_trace mock_encrypter)
     (simp add: store_def load_def set_prop_def get_prop_def own_keys_def array_index_def
        is_digit_def)

text \<open>The same scenario with the recording Cryptographer.\<close>

lemma recording_fields:
  "getKeyEncryptionAlgorithm recordingCryptographer = ''dir''"
  "getContentEncryptionAlgorithm recordingCryptographer = ''A128GCM''"
  "createIV recordingCryptographer = createIV mockCryptographer"
  "createCek recordingCryptographer = Fulfilled 7"
  "wrapCek recordingCryptographer c k = Fulfilled []"
  "encrypt recordingCryptographer i a cp pt = Fulfilled \<lparr>cipher = a, tag = pt\<rparr>"
  by (simp_all add: recordingCryptographer_def mockCryptographer_def)

lemma recordingStart_eq:
  "recordingStart =
     \<lparr>encrypter = \<lparr>cryptographer = recordingCryptographer, key_promise = Fulfilled 1, userHeaders = 0\<rparr>,
      heap = [[(''kid'', ''1'')]], trace = []\<rparr>"
  by (simp add: recordingStart_def Encrypter_new_def Encrypter_addHeader_def store_def
      set_prop_def own_keys_def array_index_def is_digit_def)

lemma recording_encrypter:
  "cryptographer (encrypter recordingStart) = recordingCryptographer"
  "key_promise (encrypter recordingStart) = Fulfilled 1"
  "userHeaders (encrypter recordingStart) = 0"
  "heap recordingStart = [[(''kid'', ''1'')]]"
  "trace recordingStart = []"
  by (simp_all add: recordingStart_eq)

lemma recording_final_headers:
  "final_headers base64Utils pt recordingStart = [(''kid'', ''1''), (''alg'', ''dir''), (''enc'', ''A128GCM'')]"
  by (simp add: final_headers_eq recording_encrypter recording_fields)
     (simp add: store_def load_def set_prop_def get_prop_def own_keys_def array_index_def is_digit_def)

lemma recording_protected_header:
  "protected_header base64Utils pt recordingStart = ''eyJraWQiOiIxIiwiYWxnIjoiZGlyIiwiZW5jIjoiQTEyOEdDTSJ9''"
  unfolding protected_header_def recording_final_headers
  by (simp add: JSON_stringify_def quote_json_def escape_char_def base64Utils_def utf8Bytes_def
      sextet_def)

lemma recording_compact:
  "compact base64Utils hdr [] (createIV mockCryptographer)
      (utf8Bytes ''eyJraWQiOiIxIiwiYWxnIjoiZGlyIiwiZW5jIjoiQTEyOEdDTSJ9'') (utf8Bytes ''hi'')
     = [hdr, [], ''AAECAwQFBgcICQoL'',
        ''ZXlKcmFXUWlPaUl4SWl3aVlXeG5Jam9pWkdseUlpd2laVzVqSWpvaVFURXlPRWREVFNKOQ'', ''aGk'']"
  by (simp add: compact_def base64Utils_def mockCryptographer_def utf8Bytes_def sextet_def)

section \<open>The claims\<close>

subsection \<open>C1: the shape of the token\<close>

text \<open>
  Claim C1. For every plaintext, the empty one included, the promise of \<^verbatim>\<open>encrypt\<close> is
  fulfilled exactly when the recipient key, the CEK, the wrapped CEK and the content encryption
  are, and then with the five segments protected header, wrapped CEK, IV, ciphertext and tag,
  in this order, joined by \<^verbatim>\<open>"."\<close>. With encoders that never write the separator, cutting
  the token at its separators gives these five segments back, and the token holds exactly four
  separators.
\<close>

theorem encrypt_token_five_segments:
  "(fst (fst (Encrypter_encrypt U plain_text w) w2) = Fulfilled token) =
     (\<exists>key cek encrypted_cek r.
        key_promise (encrypter w) = Fulfilled key
      \<and> createCek (cryptographer (encrypter w)) = Fulfilled cek
      \<and> wrapCek (cryptographer (encrypter w2)) cek key = Fulfilled encrypted_cek
      \<and> encrypt (cryptographer (encrypter w)) (createIV (cryptographer (encrypter w)))
           (arrayFromString U (protected_header U plain_text w)) (Fulfilled cek)
           (arrayFromString U plain_text)
         = Fulfilled r
      \<and> token = join ''.''
           (compact U (protected_header U plain_text w) encrypted_cek
              (createIV (cryptographer (encrypter w))) (cipher r) (tag r)))
   \<and> (dot_free U \<longrightarrow>
        (\<forall>encrypted_cek i c t.
           segments (join ''.'' (compact U (protected_header U plain_text w) encrypted_cek i c t))
             = compact U (protected_header U plain_text w) encrypted_cek i c t
         \<and> length (compact U (protected_header U plain_text w) encrypted_cek i c t) = 5
         \<and> count_list (join ''.'' (compact U (protected_header U plain_text w) encrypted_cek i c t))
              (CHR ''.'') = 4))"
proof (intro conjI impI allI)
  show "(fst (fst (Encrypter_encrypt U plain_text w) w2) = Fulfilled token) =
     (\<exists>key cek encrypted_cek r.
        key_promise (encrypter w) = Fulfilled key
      \<and> createCek (cryptographer (encrypter w)) = Fulfilled cek
      \<and> wrapCek (cryptographer (encrypter w2)) cek key = Fulfilled encrypted_cek
      \<and> encrypt (cryptographer (encrypter w)) (createIV (cryptographer (encrypter w)))
           (arrayFromString U (protected_header U plain_text w)) (Fulfilled cek)
           (arrayFromString U plain_text)
         = Fulfilled r
      \<and> token = join ''.''
           (compact U (protected_header U plain_text w) encrypted_cek
              (createIV (cryptographer (encrypter w))) (cipher r) (tag r)))"
    by (rule encrypt_fulfilled_iff)
next
  fix encrypted_cek i c t
  assume d: "dot_free U"
  then have h: "CHR ''.'' \<notin> set (protected_header U plain_text w)"
    by (rule header_dot_free)
  show "segments (join ''.'' (compact U (protected_header U plain_text w) encrypted_cek i c t))
             = compact U (protected_header U plain_text w) encrypted_cek i c t"
    using d h by (rule segments_compact)
  show "length (compact U (protected_header U plain_text w) encrypted_cek i c t) = 5"
    by (simp add: compact_def)
  show "count_list (join ''.'' (compact U (protected_header U plain_text w) encrypted_cek i c t))
              (CHR ''.'') = 4"
    using d h by (rule count_compact)
qed

text \<open>The test scenario with the empty plaintext: the token and its five segments.\<close>

theorem encrypt_token_five_segments_witness:
  "dot_free base64Utils
   \<and> fst (fst (Encrypter_encrypt base64Utils [] mockStart) mockStart)
       = Fulfilled ''eyJraWQiOiIxIiwiYWxnIjoiZGlyIiwiZW5jIjoiQTEyOEdDTSJ9..AAECAwQFBgcICQoL.3q0.vu8''
   \<and> segments ''eyJraWQiOiIxIiwiYWxnIjoiZGlyIiwiZW5jIjoiQTEyOEdDTSJ9..AAECAwQFBgcICQoL.3q0.vu8''
       = [''eyJraWQiOiIxIiwiYWxnIjoiZGlyIiwiZW5jIjoiQTEyOEdDTSJ9'', [], ''AAECAwQFBgcICQoL'', ''3q0'', ''vu8'']
   \<and> count_list ''eyJraWQiOiIxIiwiYWxnIjoiZGlyIiwiZW5jIjoiQTEyOEdDTSJ9..AAECAwQFBgcICQoL.3q0.vu8''
         (CHR ''.'') = 4"
proof -
  have d: "dot_free base64Utils"
    by (rule dot_free_base64Utils)
  have t: "fst (fst (Encrypter_encrypt base64Utils [] mockStart) mockStart)
       = Fulfilled ''eyJraWQiOiIxIiwiYWxnIjoiZGlyIiwiZW5jIjoiQTEyOEdDTSJ9..AAECAwQFBgcICQoL.3q0.vu8''"
    by (simp add: mock_token mock_encrypter)
  from d encrypt_token_five_segments[of base64Utils "[]" mockStart mockStart
      "''eyJraWQiOiIxIiwiYWxnIjoiZGlyIiwiZW5jIjoiQTEyOEdDTSJ9..AAECAwQFBgcICQoL.3q0.vu8''"]
  have "segments (join ''.'' (compact base64Utils (protected_header base64Utils [] mockStart) []
            (createIV mockCryptographer) [222, 173] [190, 239]))
          = compact base64Utils (protected_header base64Utils [] mockStart) []
              (createIV mockCryptographer) [222, 173] [190, 239]
      \<and> count_list (join ''.'' (compact base64Utils (protected_header base64Utils [] mockStart) []
            (createIV mockCryptographer) [222, 173] [190, 239])) (CHR ''.'') = 4"
    by blast
  with d t show ?thesis
    by (simp add: mock_compact mock_protected_header)
qed

subsection \<open>C2: the AAD is the protected header\<close>

text \<open>
  Claim C2. In every call of \<^verbatim>\<open>encrypt\<close> the Cryptographer's content encryption is applied
  once, to the IV, to the bytes of the string \<^verbatim>\<open>jwe_protected_header\<close> as AAD, to the CEK
  promise and to the plaintext bytes: the call is recorded with these arguments, and the state
  of the returned promise is, for every Cryptographer, determined by the result of exactly this
  application. Whenever the call yields a token, that string is the first segment of the token,
  so the AAD the content encryption was applied to is the bytes of the first segment, and the
  ciphertext and tag segments encode what this application returned.
\<close>

theorem aad_is_header_segment:
  "aad_arguments (new_events w (snd (Encrypter_encrypt U plain_text w)))
     = [arrayFromString U (protected_header U plain_text w)]
   \<and> fst (Encrypter_encrypt U plain_text w) w2 =
       (case join_all (key_promise (encrypter w)) (createCek (cryptographer (encrypter w))) of
          Pending \<Rightarrow>
            (case encrypt (cryptographer (encrypter w)) (createIV (cryptographer (encrypter w)))
                    (arrayFromString U (protected_header U plain_text w))
                    (createCek (cryptographer (encrypter w))) (arrayFromString U plain_text) of
               Rejected e \<Rightarrow> Rejected e | _ \<Rightarrow> Pending, w2)
        | Rejected e \<Rightarrow> (Rejected e, w2)
        | Fulfilled (key, cek) \<Rightarrow>
            (case join_all (wrapCek (cryptographer (encrypter w2)) cek key)
                    (encrypt (cryptographer (encrypter w)) (createIV (cryptographer (encrypter w)))
                       (arrayFromString U (protected_header U plain_text w))
                       (createCek (cryptographer (encrypter w))) (arrayFromString U plain_text)) of
               Pending \<Rightarrow> Pending
             | Rejected e \<Rightarrow> Rejected e
             | Fulfilled (encrypted_cek, r) \<Rightarrow>
                 Fulfilled (join ''.''
                   (compact U (protected_header U plain_text w) encrypted_cek
                      (createIV (cryptographer (encrypter w))) (cipher r) (tag r))),
             emit (WrapCek cek key) w2))
   \<and> (dot_free U \<longrightarrow>
        (\<forall>w3 token. fst (fst (Encrypter_encrypt U plain_text w) w3) = Fulfilled token \<longrightarrow>
           hd (segments token) = protected_header U plain_text w
         \<and> aad_arguments (new_events w (snd (Encrypter_encrypt U plain_text w)))
             = [arrayFromString U (hd (segments token))]
         \<and> (\<exists>cek r.
               createCek (cryptographer (encrypter w)) = Fulfilled cek
             \<and> encrypt (cryptographer (encrypter w)) (createIV (cryptographer (encrypter w)))
                  (arrayFromString U (hd (segments token))) (Fulfilled cek)
                  (arrayFromString U plain_text)
                = Fulfilled r
             \<and> segments token ! 3 = Base64Url_encodeArray U (cipher r)
             \<and> segments token ! 4 = Base64Url_encodeArray U (tag r))))"
proof -
  have aad: "aad_arguments (new_events w (snd (Encrypter_encrypt U plain_text w)))
     = [arrayFromString U (protected_header U plain_text w)]"
    by (simp add: aad_arguments_def new_events_def encrypt_trace)
  have applied: "hd (segments token) = protected_header U plain_text w
         \<and> (\<exists>cek r.
               createCek (cryptographer (encrypter w)) = Fulfilled cek
             \<and> encrypt (cryptographer (encrypter w)) (createIV (cryptographer (encrypter w)))
                  (arrayFromString U (hd (segments token))) (Fulfilled cek)
                  (arrayFromString U plain_text)
                = Fulfilled r
             \<and> segments token ! 3 = Base64Url_encodeArray U (cipher r)
             \<and> segments token ! 4 = Base64Url_encodeArray U (tag r))"
    if d: "dot_free U" and f: "fst (fst (Encrypter_encrypt U plain_text w) w3) = Fulfilled token"
    for w3 token
  proof -
    from f[unfolded encrypt_fulfilled_iff] obtain key cek encrypted_cek r where
      k: "createCek (cryptographer (encrypter w)) = Fulfilled cek
          \<and> encrypt (cryptographer (encrypter w)) (createIV (cryptographer (encrypter w)))
               (arrayFromString U (protected_header U plain_text w)) (Fulfilled cek)
               (arrayFromString U plain_text)
             = Fulfilled r
          \<and> token = join ''.''
               (compact U (protected_header U plain_text w) encrypted_cek
                  (createIV (cryptographer (encrypter w))) (cipher r) (tag r))"
      by blast
    have s: "segments token = compact U (protected_header U plain_text w) encrypted_cek
                  (createIV (cryptographer (encrypter w))) (cipher r) (tag r)"
      using k segments_compact[OF d header_dot_free[OF d]] by simp
    then have h: "hd (segments token) = protected_header U plain_text w"
      and c: "segments token ! 3 = Base64Url_encodeArray U (cipher r)"
      and t: "segments token ! 4 = Base64Url_encodeArray U (tag r)"
      by (simp_all add: compact_def)
    from k h c t show ?thesis
      by (intro conjI exI[of _ cek] exI[of _ r]) simp_all
  qed
  show ?thesis
    apply (intro conjI impI allI)
        apply (rule aad)
       apply (rule encrypt_run)
      apply (drule (1) applied, simp)
     apply (frule (1) applied, simp add: aad)
    apply (drule (1) applied, blast)
    done
qed

text \<open>
  The test scenario with the Cryptographer that records its arguments: the ciphertext segment of
  the token is the encoding of the AAD it received, which is the bytes of the first segment.
\<close>

theorem aad_is_header_segment_witness:
  "dot_free base64Utils
   \<and> fst (fst (Encrypter_encrypt base64Utils ''hi'' recordingStart) recordingStart)
       = Fulfilled ''eyJraWQiOiIxIiwiYWxnIjoiZGlyIiwiZW5jIjoiQTEyOEdDTSJ9..AAECAwQFBgcICQoL.ZXlKcmFXUWlPaUl4SWl3aVlXeG5Jam9pWkdseUlpd2laVzVqSWpvaVFURXlPRWREVFNKOQ.aGk''
   \<and> aad_arguments (new_events recordingStart (snd (Encrypter_encrypt base64Utils ''hi'' recordingStart)))
       = [utf8Bytes ''eyJraWQiOiIxIiwiYWxnIjoiZGlyIiwiZW5jIjoiQTEyOEdDTSJ9'']
   \<and> Base64Url_encodeArray base64Utils (utf8Bytes ''eyJraWQiOiIxIiwiYWxnIjoiZGlyIiwiZW5jIjoiQTEyOEdDTSJ9'')
       = ''ZXlKcmFXUWlPaUl4SWl3aVlXeG5Jam9pWkdseUlpd2laVzVqSWpvaVFURXlPRWREVFNKOQ''"
proof -
  have d: "dot_free base64Utils"
    by (rule dot_free_base64Utils)
  have e: "Base64Url_encodeArray base64Utils (utf8Bytes ''eyJraWQiOiIxIiwiYWxnIjoiZGlyIiwiZW5jIjoiQTEyOEdDTSJ9'')
       = ''ZXlKcmFXUWlPaUl4SWl3aVlXeG5Jam9pWkdseUlpd2laVzVqSWpvaVFURXlPRWREVFNKOQ''"
    using recording_compact[of "[]"] by (simp add: compact_def)
  from aad_is_header_segment[of recordingStart base64Utils "''hi''" recordingStart] d e
  show ?thesis
    by (simp add: recording_encrypter recording_fields recording_protected_header
        mock_arrayFromString join_all_def recording_compact)
qed

subsection \<open>C3: failures\<close>

text \<open>
  Claim C3. If a sub-operation of a call of \<^verbatim>\<open>encrypt\<close> fails (the recipient key, the
  creation of the CEK, the wrapping, the content encryption), the returned promise is rejected
  with the reason of a failed sub-operation, hence with that reason when only one fails, and is
  never fulfilled with a token; a rejection of the returned promise always carries such a reason;
  a rejected recipient key rejects the returned promise. Neither the call nor its callbacks
  change the Encrypter or any object that existed before the call.
\<close>

theorem encrypt_rejects_on_failure:
  "(failures U plain_text w w2 \<noteq> [] \<longrightarrow>
      (\<exists>e \<in> set (failures U plain_text w w2).
         fst (fst (Encrypter_encrypt U plain_text w) w2) = Rejected e))
   \<and> (failures U plain_text w w2 \<noteq> [] \<longrightarrow>
        (\<forall>token. fst (fst (Encrypter_encrypt U plain_text w) w2) \<noteq> Fulfilled token))
   \<and> (failures U plain_text w w2 = [e] \<longrightarrow>
        fst (fst (Encrypter_encrypt U plain_text w) w2) = Rejected e)
   \<and> (fst (fst (Encrypter_encrypt U plain_text w) w2) = Rejected e \<longrightarrow>
        e \<in> set (failures U plain_text w w2))
   \<and> (key_promise (encrypter w) = Rejected e \<longrightarrow>
        (\<exists>e'. fst (fst (Encrypter_encrypt U plain_text w) w2) = Rejected e'))
   \<and> encrypter (snd (fst (Encrypter_encrypt U plain_text w) w2)) = encrypter w2
   \<and> heap (snd (fst (Encrypter_encrypt U plain_text w) w2)) = heap w2
   \<and> encrypter (snd (Encrypter_encrypt U plain_text w)) = encrypter w
   \<and> take (length (heap w)) (heap (snd (Encrypter_encrypt U plain_text w))) = heap w"
proof -
  have 1: "\<exists>e \<in> set (failures U plain_text w w2).
             fst (fst (Encrypter_encrypt U plain_text w) w2) = Rejected e"
    if "failures U plain_text w w2 \<noteq> []"
    using that
    by (cases "key_promise (encrypter w)"; cases "createCek (cryptographer (encrypter w))")
       (auto simp: failures_def Let_def encrypt_run join_all_def reasons_def split: promise.splits)
  have 2: "fst (fst (Encrypter_encrypt U plain_text w) w2) = Rejected e"
    if "failures U plain_text w w2 = [e]"
    using 1 that by force
  have 3: "e \<in> set (failures U plain_text w w2)"
    if "fst (fst (Encrypter_encrypt U plain_text w) w2) = Rejected e"
    using that
    by (cases "key_promise (encrypter w)"; cases "createCek (cryptographer (encrypter w))")
       (auto simp: failures_def Let_def encrypt_run join_all_def reasons_def split: promise.splits)
  have 4: "\<exists>e'. fst (fst (Encrypter_encrypt U plain_text w) w2) = Rejected e'"
    if "key_promise (encrypter w) = Rejected e"
    using that by (simp add: encrypt_run join_all_def)
  have 5: "fst (fst (Encrypter_encrypt U plain_text w) w2) \<noteq> Fulfilled token"
    if "failures U plain_text w w2 \<noteq> []" for token
    using 1[OF that] by auto
  from 1 2 3 4 5 show ?thesis
    by (simp add: run_encrypter run_heap encrypt_encrypter encrypt_take)
qed

text \<open>The test Encrypter with a rejected recipient key: the one failure is what comes back.\<close>

theorem encrypt_rejects_on_failure_witness:
  "failures base64Utils ''hi'' mockRejected mockRejected = [''KeyUnavailable'']
   \<and> fst (fst (Encrypter_encrypt base64Utils ''hi'' mockRejected) mockRejected)
       = Rejected ''KeyUnavailable''
   \<and> key_promise (encrypter mockRejected) = Rejected ''KeyUnavailable''"
proof -
  have f: "failures base64Utils ''hi'' mockRejected mockRejected = [''KeyUnavailable'']"
    by (simp add: failures_def Let_def mockRejected_def Encrypter_new_def mock_fields)
  with encrypt_rejects_on_failure[of base64Utils "''hi''" mockRejected mockRejected "''KeyUnavailable''"]
  have "fst (fst (Encrypter_encrypt base64Utils ''hi'' mockRejected) mockRejected)
       = Rejected ''KeyUnavailable''"
    by blast
  with f show ?thesis
    by (simp add: mockRejected_def Encrypter_new_def)
qed

subsection \<open>C4: alg and enc come from the Cryptographer\<close>

text \<open>
  Claim C4. In every call of \<^verbatim>\<open>encrypt\<close> the header object that is serialized has \<^verbatim>\<open>alg\<close>
  and \<^verbatim>\<open>enc\<close> as the Cryptographer reports them, also after \<^verbatim>\<open>addHeader("alg", a)\<close> and
  \<^verbatim>\<open>addHeader("enc", e)\<close>; its other properties are those of \<^verbatim>\<open>userHeaders\<close>; and the
  first segment of the token is the base64url encoding of its JSON serialization.
\<close>

theorem protected_header_alg_enc:
  "get_prop (final_headers U plain_text w) ''alg''
     = Some (getKeyEncryptionAlgorithm (cryptographer (encrypter w)))
   \<and> get_prop (final_headers U plain_text w) ''enc''
     = Some (getContentEncryptionAlgorithm (cryptographer (encrypter w)))
   \<and> get_prop (final_headers U plain_text
        (Encrypter_addHeader ''enc'' e (Encrypter_addHeader ''alg'' a w))) ''alg''
     = Some (getKeyEncryptionAlgorithm (cryptographer (encrypter w)))
   \<and> get_prop (final_headers U plain_text
        (Encrypter_addHeader ''enc'' e (Encrypter_addHeader ''alg'' a w))) ''enc''
     = Some (getContentEncryptionAlgorithm (cryptographer (encrypter w)))
   \<and> (allocated w \<longrightarrow>
        (\<forall>k. k \<noteq> ''alg'' \<and> k \<noteq> ''enc'' \<and> k \<noteq> ''__proto__'' \<longrightarrow>
           get_prop (final_headers U plain_text w) k = get_prop (heap w ! userHeaders (encrypter w)) k))
   \<and> (\<forall>w2 token. fst (fst (Encrypter_encrypt U plain_text w) w2) = Fulfilled token \<longrightarrow>
        (\<exists>rest. token = Base64Url_encode U (JSON_stringify (final_headers U plain_text w)) @ ''.'' @ rest))"
  using token_starts_with_header[of U plain_text w]
  by (simp add: final_headers_alg final_headers_enc final_headers_user protected_header_def)

text \<open>
  The test scenario after \<^verbatim>\<open>addHeader("alg", "none")\<close> and \<^verbatim>\<open>addHeader("enc", "none")\<close>: the
  Cryptographer's values are in the header, and so is the user's \<^verbatim>\<open>kid\<close>.
\<close>

theorem protected_header_alg_enc_witness:
  "allocated mockStart
   \<and> get_prop (final_headers base64Utils ''hi''
        (Encrypter_addHeader ''enc'' ''none'' (Encrypter_addHeader ''alg'' ''none'' mockStart))) ''alg''
       = Some ''dir''
   \<and> get_prop (final_headers base64Utils ''hi''
        (Encrypter_addHeader ''enc'' ''none'' (Encrypter_addHeader ''alg'' ''none'' mockStart))) ''enc''
       = Some ''A128GCM''
   \<and> get_prop (final_headers base64Utils ''hi'' mockStart) ''kid'' = Some ''1''"
proof -
  have a: "allocated mockStart"
    by (rule mock_allocated)
  from a protected_header_alg_enc[of base64Utils "''hi''" mockStart "''none''" "''none''"]
  have "get_prop (final_headers base64Utils ''hi'' mockStart) ''kid''
          = get_prop (heap mockStart ! userHeaders (encrypter mockStart)) ''kid''"
    by simp
  with a protected_header_alg_enc[of base64Utils "''hi''" mockStart "''none''" "''none''"]
  show ?thesis
    by (simp add: mock_encrypter mock_fields get_prop_def)
qed

subsection \<open>C5: the snapshot and the first Cryptographer call\<close>

text \<open>
  C5 says that no Cryptographer operation, CEK creation included, is initiated before the
  snapshot of the header map is made. In the test scenario one call precedes the snapshot:
  \<^verbatim>\<open>createCek\<close> (line 88), made before \<^verbatim>\<open>encryptPlainText\<close> is entered (line 98).
\<close>

theorem snapshot_counterexample:
  "calls_before_snapshot (new_events mockStart (snd (Encrypter_encrypt base64Utils ''hi'' mockStart)))
     = [CreateCek]"
  by (simp add: mock_new_events calls_before_snapshot_def)

text \<open>
  Claim C5, amended. In every call of \<^verbatim>\<open>encrypt\<close> the snapshot is taken inside the call, after
  \<^verbatim>\<open>createCek\<close> has been called and before every other Cryptographer operation of the call:
  the events of the call are, in this order, \<^verbatim>\<open>createCek\<close>, the snapshot,
  \<^verbatim>\<open>getKeyEncryptionAlgorithm\<close>, \<^verbatim>\<open>getContentEncryptionAlgorithm\<close>, \<^verbatim>\<open>createIV\<close> and
  \<^verbatim>\<open>encrypt\<close>; \<^verbatim>\<open>createCek\<close> is the only call before the snapshot, and \<^verbatim>\<open>wrapCek\<close> is
  not called before the call has returned.
\<close>

theorem snapshot_after_createCek:
  "(\<exists>S. new_events w (snd (Encrypter_encrypt U plain_text w)) =
         [CreateCek, Snapshot S, GetKeyEncryptionAlgorithm, GetContentEncryptionAlgorithm, CreateIV,
          Encrypt (createIV (cryptographer (encrypter w)))
            (arrayFromString U (protected_header U plain_text w))
            (createCek (cryptographer (encrypter w))) (arrayFromString U plain_text)])
   \<and> calls_before_snapshot (new_events w (snd (Encrypter_encrypt U plain_text w))) = [CreateCek]
   \<and> wrap_calls (new_events w (snd (Encrypter_encrypt U plain_text w))) = []"
  by (simp add: new_events_def encrypt_trace calls_before_snapshot_def)

subsection \<open>C6: addHeader after encrypt\<close>

text \<open>
  Claim C6. A call of \<^verbatim>\<open>addHeader\<close> made after \<^verbatim>\<open>encrypt\<close> has been invoked changes nothing of
  that call: the state its promise settles in (hence the token and its header segment) and the
  Cryptographer calls of its callbacks are the same whether or not \<^verbatim>\<open>addHeader\<close> has run,
  once or many times, before the callbacks; the trace, which holds the AAD already passed, is
  not touched; and the snapshot object of the call is not written by \<^verbatim>\<open>addHeader\<close>.
\<close>

theorem addHeader_after_encrypt:
  "fst (fst (Encrypter_encrypt U plain_text w) (Encrypter_addHeader k v w2))
     = fst (fst (Encrypter_encrypt U plain_text w) w2)
   \<and> fst (fst (Encrypter_encrypt U plain_text w) (fold (\<lambda>(k, v). Encrypter_addHeader k v) kvs w2))
     = fst (fst (Encrypter_encrypt U plain_text w) w2)
   \<and> new_events (Encrypter_addHeader k v w2)
         (snd (fst (Encrypter_encrypt U plain_text w) (Encrypter_addHeader k v w2)))
     = new_events w2 (snd (fst (Encrypter_encrypt U plain_text w) w2))
   \<and> trace (Encrypter_addHeader k v w2) = trace w2
   \<and> (allocated w \<longrightarrow>
        heap (Encrypter_addHeader k v (snd (Encrypter_encrypt U plain_text w))) ! length (heap w)
          = final_headers U plain_text w)"
proof -
  have "fst (fst (Encrypter_encrypt U plain_text w) (Encrypter_addHeader k v w2))
     = fst (fst (Encrypter_encrypt U plain_text w) w2)"
    by (simp add: encrypt_run split: promise.splits)
  moreover have "fst (fst (Encrypter_encrypt U plain_text w)
         (fold (\<lambda>(k, v). Encrypter_addHeader k v) kvs w2))
     = fst (fst (Encrypter_encrypt U plain_text w) w2)"
    by (simp add: encrypt_run encrypter_addHeaders split: promise.splits)
  moreover have "new_events (Encrypter_addHeader k v w2)
         (snd (fst (Encrypter_encrypt U plain_text w) (Encrypter_addHeader k v w2)))
     = new_events w2 (snd (fst (Encrypter_encrypt U plain_text w) w2))"
    by (simp add: run_world new_events_def split: promise.splits)
  moreover have "heap (Encrypter_addHeader k v (snd (Encrypter_encrypt U plain_text w))) ! length (heap w)
          = final_headers U plain_text w" if "allocated w"
    using that
    by (simp add: allocated_def final_headers_def encrypt_encrypter heap_addHeader_other)
  ultimately show ?thesis by simp
qed

text \<open>
  The test scenario, with \<^verbatim>\<open>addHeader("kid", "2")\<close> after the call: the same token, the same
  snapshot, and a live map that did change.
\<close>

theorem addHeader_after_encrypt_witness:
  "allocated mockStart
   \<and> fst (fst (Encrypter_encrypt base64Utils ''hi'' mockStart)
        (Encrypter_addHeader ''kid'' ''2'' (snd (Encrypter_encrypt base64Utils ''hi'' mockStart))))
       = Fulfilled ''eyJraWQiOiIxIiwiYWxnIjoiZGlyIiwiZW5jIjoiQTEyOEdDTSJ9..AAECAwQFBgcICQoL.3q0.vu8''
   \<and> heap (Encrypter_addHeader ''kid'' ''2'' (snd (Encrypter_encrypt base64Utils ''hi'' mockStart))) ! 1
       = [(''kid'', ''1''), (''alg'', ''dir''), (''enc'', ''A128GCM'')]
   \<and> heap (Encrypter_addHeader ''kid'' ''2'' (snd (Encrypter_encrypt base64Utils ''hi'' mockStart))) ! 0
       = [(''kid'', ''2'')]"
proof -
  let ?after = "snd (Encrypter_encrypt base64Utils ''hi'' mockStart)"
  have a: "allocated mockStart"
    by (rule mock_allocated)
  have t: "fst (fst (Encrypter_encrypt base64Utils ''hi'' mockStart) ?after)
       = Fulfilled ''eyJraWQiOiIxIiwiYWxnIjoiZGlyIiwiZW5jIjoiQTEyOEdDTSJ9..AAECAwQFBgcICQoL.3q0.vu8''"
    by (simp add: mock_token encrypt_encrypter mock_encrypter)
  have live: "heap (Encrypter_addHeader ''kid'' ''2'' ?after) ! 0 = [(''kid'', ''2'')]"
    using heap_addHeader_user[of ?after "''kid''" "''2''"] allocated_encrypt[OF a, of base64Utils "''hi''"]
    by (simp add: encrypt_encrypter encrypt_old mock_encrypter set_prop_def own_keys_def)
  from a t live addHeader_after_encrypt[of base64Utils "''hi''" mockStart "''kid''" "''2''" ?after "[]"]
  show ?thesis
    by (simp add: mock_final_headers mock_encrypter)
qed

subsection \<open>C7: the wrap task\<close>

text \<open>
  Claim C7. \<^verbatim>\<open>wrapCek\<close> is not called inside the call of \<^verbatim>\<open>encrypt\<close>; its callbacks call it
  once, with the CEK and the key, when the recipient-key promise and the CEK promise are both
  fulfilled, and not at all while either of the two is pending or when either is rejected; and
  what its promise is fulfilled with is, encoded, the second segment of the token.
\<close>

theorem wrapCek_called_after_join:
  "wrap_calls (new_events w (snd (Encrypter_encrypt U plain_text w))) = []
   \<and> wrap_calls (new_events w2 (snd (fst (Encrypter_encrypt U plain_text w) w2))) =
       (case key_promise (encrypter w) of
          Fulfilled key \<Rightarrow>
            (case createCek (cryptographer (encrypter w)) of
               Fulfilled cek \<Rightarrow> [(cek, key)]
             | _ \<Rightarrow> [])
        | _ \<Rightarrow> [])
   \<and> (dot_free U \<longrightarrow>
        (\<forall>token. fst (fst (Encrypter_encrypt U plain_text w) w2) = Fulfilled token \<longrightarrow>
           (\<exists>key cek encrypted_cek.
              key_promise (encrypter w) = Fulfilled key
            \<and> createCek (cryptographer (encrypter w)) = Fulfilled cek
            \<and> wrapCek (cryptographer (encrypter w2)) cek key = Fulfilled encrypted_cek
            \<and> segments token ! 1 = Base64Url_encodeArray U encrypted_cek)))"
proof -
  have a: "wrap_calls (new_events w (snd (Encrypter_encrypt U plain_text w))) = []"
    by (simp add: new_events_def encrypt_trace)
  have b: "wrap_calls (new_events w2 (snd (fst (Encrypter_encrypt U plain_text w) w2))) =
       (case key_promise (encrypter w) of
          Fulfilled key \<Rightarrow>
            (case createCek (cryptographer (encrypter w)) of
               Fulfilled cek \<Rightarrow> [(cek, key)]
             | _ \<Rightarrow> [])
        | _ \<Rightarrow> [])"
    by (simp add: new_events_def run_world join_all_def split: promise.splits)
  have c: "\<exists>key cek encrypted_cek.
              key_promise (encrypter w) = Fulfilled key
            \<and> createCek (cryptographer (encrypter w)) = Fulfilled cek
            \<and> wrapCek (cryptographer (encrypter w2)) cek key = Fulfilled encrypted_cek
            \<and> segments token ! 1 = Base64Url_encodeArray U encrypted_cek"
    if d: "dot_free U" and "fst (fst (Encrypter_encrypt U plain_text w) w2) = Fulfilled token" for token
    using that segments_compact[OF d header_dot_free[OF d], of plain_text w]
    by (auto simp: encrypt_fulfilled_iff) (simp add: compact_def)
  from a b c show ?thesis by blast
qed

text \<open>
  The test scenario: one call of \<^verbatim>\<open>wrapCek\<close>, with the CEK 7 and the key 1, and its empty
  result as the second segment.
\<close>

theorem wrapCek_called_after_join_witness:
  "dot_free base64Utils
   \<and> wrap_calls (new_events mockStart (snd (fst (Encrypter_encrypt base64Utils ''hi'' mockStart) mockStart)))
       = [(7, 1)]
   \<and> fst (fst (Encrypter_encrypt base64Utils ''hi'' mockStart) mockStart)
       = Fulfilled ''eyJraWQiOiIxIiwiYWxnIjoiZGlyIiwiZW5jIjoiQTEyOEdDTSJ9..AAECAwQFBgcICQoL.3q0.vu8''
   \<and> segments ''eyJraWQiOiIxIiwiYWxnIjoiZGlyIiwiZW5jIjoiQTEyOEdDTSJ9..AAECAwQFBgcICQoL.3q0.vu8'' ! 1 = []"
proof -
  have d: "dot_free base64Utils"
    by (rule dot_free_base64Utils)
  have t: "fst (fst (Encrypter_encrypt base64Utils ''hi'' mockStart) mockStart)
       = Fulfilled ''eyJraWQiOiIxIiwiYWxnIjoiZGlyIiwiZW5jIjoiQTEyOEdDTSJ9..AAECAwQFBgcICQoL.3q0.vu8''"
    by (simp add: mock_token mock_encrypter)
  note inst = wrapCek_called_after_join[of mockStart base64Utils "''hi''" mockStart]
  from inst have w: "wrap_calls (new_events mockStart
      (snd (fst (Encrypter_encrypt base64Utils ''hi'' mockStart) mockStart))) = [(7, 1)]"
    by (simp add: mock_encrypter mock_fields)
  from inst d t obtain key cek encrypted_cek where
    "wrapCek (cryptographer (encrypter mockStart)) cek key = Fulfilled encrypted_cek"
    "segments ''eyJraWQiOiIxIiwiYWxnIjoiZGlyIiwiZW5jIjoiQTEyOEdDTSJ9..AAECAwQFBgcICQoL.3q0.vu8'' ! 1
       = Base64Url_encodeArray base64Utils encrypted_cek"
    by blast
  then have "segments ''eyJraWQiOiIxIiwiYWxnIjoiZGlyIiwiZW5jIjoiQTEyOEdDTSJ9..AAECAwQFBgcICQoL.3q0.vu8'' ! 1 = []"
    by (simp add: mock_encrypter mock_fields base64Utils_def)
  with d t w show ?thesis by simp
qed

subsection \<open>C8: the content encryption and the recipient key\<close>


subsection \<open>C9: addHeader\<close>

text \<open>
  C9 says that after \<^verbatim>\<open>addHeader(k, v1)\<close> and \<^verbatim>\<open>addHeader(k, v2)\<close> the final header has
  \<open>v2\<close> for \<open>k\<close>. For \<^verbatim>\<open>k = "alg"\<close> it has the Cryptographer's value instead (lines 69-70
  overwrite it).
\<close>

theorem addHeader_alg_counterexample:
  "get_prop (final_headers base64Utils ''hi''
      (Encrypter_addHeader ''alg'' ''v2'' (Encrypter_addHeader ''alg'' ''v1'' mockWorld))) ''alg''
     = Some ''dir''
   \<and> ''dir'' \<noteq> ''v2''"
  by (simp add: final_headers_alg mockWorld_def Encrypter_new_def mock_fields)

text \<open>
  Claim C9, amended. For a key other than \<^verbatim>\<open>alg\<close> and \<^verbatim>\<open>enc\<close> (and other than
  \<^verbatim>\<open>__proto__\<close>, about which nothing is said), \<^verbatim>\<open>addHeader(k, v1)\<close> followed by
  \<^verbatim>\<open>addHeader(k, v2)\<close> leaves \<open>v2\<close> under \<open>k\<close> in the header map, and the header of a
  following \<^verbatim>\<open>encrypt\<close> has exactly one property \<open>k\<close>, with the value \<open>v2\<close>. \<^verbatim>\<open>addHeader\<close>
  calls nothing on the Cryptographer and changes nothing of the Encrypter but that map. For
  \<^verbatim>\<open>alg\<close> and for \<^verbatim>\<open>enc\<close> the header of the following \<^verbatim>\<open>encrypt\<close> holds the
  Cryptographer's value, whatever the two calls wrote.
\<close>

theorem addHeader_last_write_wins:
  assumes "allocated w" and "k \<noteq> ''alg''" and "k \<noteq> ''enc''" and "k \<noteq> ''__proto__''"
  shows "get_prop (heap (Encrypter_addHeader k v2 (Encrypter_addHeader k v1 w)) ! userHeaders (encrypter w)) k
           = Some v2
         \<and> filter (\<lambda>p. fst p = k)
             (final_headers U plain_text (Encrypter_addHeader k v2 (Encrypter_addHeader k v1 w)))
           = [(k, v2)]
         \<and> trace (Encrypter_addHeader k v1 w) = trace w
         \<and> encrypter (Encrypter_addHeader k v1 w) = encrypter w
         \<and> length (heap (Encrypter_addHeader k v1 w)) = length (heap w)
         \<and> (\<forall>a. a \<noteq> userHeaders (encrypter w) \<longrightarrow> heap (Encrypter_addHeader k v1 w) ! a = heap w ! a)
         \<and> get_prop (final_headers U plain_text
                (Encrypter_addHeader ''alg'' v2 (Encrypter_addHeader ''alg'' v1 w))) ''alg''
           = Some (getKeyEncryptionAlgorithm (cryptographer (encrypter w)))
         \<and> get_prop (final_headers U plain_text
                (Encrypter_addHeader ''enc'' v2 (Encrypter_addHeader ''enc'' v1 w))) ''enc''
           = Some (getContentEncryptionAlgorithm (cryptographer (encrypter w)))"
proof -
  let ?w = "Encrypter_addHeader k v2 (Encrypter_addHeader k v1 w)"
  have user: "get_prop (heap ?w ! userHeaders (encrypter w)) k = Some v2"
    using assms heap_addHeader_user[of "Encrypter_addHeader k v1 w" k v2]
    by (simp add: get_prop_set_prop)
  have "get_prop (final_headers U plain_text ?w) k = Some v2"
    using assms user final_headers_user[of ?w k U plain_text] by simp
  then have "filter (\<lambda>p. fst p = k) (final_headers U plain_text ?w) = [(k, v2)]"
    using final_headers_distinct[of U plain_text ?w]
    by (intro filter_key) (simp_all add: own_keys_def get_prop_def)
  with user show ?thesis
    by (simp add: heap_addHeader_other final_headers_alg final_headers_enc)
qed

text \<open>The test Encrypter after \<^verbatim>\<open>addHeader("kid", "1")\<close> and \<^verbatim>\<open>addHeader("kid", "2")\<close>.\<close>

theorem addHeader_last_write_wins_witness:
  "allocated mockWorld
   \<and> get_prop (heap (Encrypter_addHeader ''kid'' ''2'' (Encrypter_addHeader ''kid'' ''1'' mockWorld)) ! 0)
        ''kid''
       = Some ''2''
   \<and> filter (\<lambda>p. fst p = ''kid'')
        (final_headers base64Utils ''hi''
           (Encrypter_addHeader ''kid'' ''2'' (Encrypter_addHeader ''kid'' ''1'' mockWorld)))
       = [(''kid'', ''2'')]"
proof -
  have a: "allocated mockWorld"
    by (rule mock_allocated)
  have u: "userHeaders (encrypter mockWorld) = 0"
    by (simp add: mockWorld_def Encrypter_new_def)
  from addHeader_last_write_wins[OF a, of "''kid''" "''2''" "''1''" base64Utils "''hi''"] a u
  show ?thesis by simp
qed

subsection \<open>C10: encrypt leaves the Encrypter as it was\<close>

text \<open>
  Claim C10. A call of \<^verbatim>\<open>encrypt\<close> leaves the Encrypter's three fields as they were and
  every object that existed before the call as it was, the \<^verbatim>\<open>userHeaders\<close> map among them:
  the call writes into the object it allocates. The callbacks of the call change neither the
  Encrypter nor the heap.
\<close>

theorem encrypt_leaves_encrypter_unchanged:
  "encrypter (snd (Encrypter_encrypt U plain_text w)) = encrypter w
   \<and> take (length (heap w)) (heap (snd (Encrypter_encrypt U plain_text w))) = heap w
   \<and> length (heap (snd (Encrypter_encrypt U plain_text w))) = Suc (length (heap w))
   \<and> (allocated w \<longrightarrow>
        heap (snd (Encrypter_encrypt U plain_text w)) ! userHeaders (encrypter w)
          = heap w ! userHeaders (encrypter w))
   \<and> encrypter (snd (fst (Encrypter_encrypt U plain_text w) w2)) = encrypter w2
   \<and> heap (snd (fst (Encrypter_encrypt U plain_text w) w2)) = heap w2"
  by (simp add: encrypt_encrypter encrypt_take encrypt_length encrypt_old allocated_def
      run_encrypter run_heap)

text \<open>The test scenario: the live map still holds \<^verbatim>\<open>kid\<close> only, after the call.\<close>

theorem encrypt_leaves_encrypter_unchanged_witness:
  "allocated mockStart
   \<and> encrypter (snd (Encrypter_encrypt base64Utils ''hi'' mockStart)) = encrypter mockStart
   \<and> heap (snd (Encrypter_encrypt base64Utils ''hi'' mockStart)) ! 0 = [(''kid'', ''1'')]
   \<and> heap (snd (Encrypter_encrypt base64Utils ''hi'' mockStart)) ! 1
       = [(''kid'', ''1''), (''alg'', ''dir''), (''enc'', ''A128GCM'')]"
proof -
  have a: "allocated mockStart"
    by (rule mock_allocated)
  have "heap (snd (Encrypter_encrypt base64Utils ''hi'' mockStart)) ! 1
       = [(''kid'', ''1''), (''alg'', ''dir''), (''enc'', ''A128GCM'')]"
    using mock_final_headers[of "''hi''"] by (simp add: final_headers_def mock_encrypter)
  with a encrypt_leaves_encrypter_unchanged[of base64Utils "''hi''" mockStart mockStart]
  show ?thesis
    by (simp add: mock_encrypter)
qed

end
